theory Spec2Isabelle
  imports Main
begin

section \<open>Python values used by the program\<close>

text \<open>
  The exceptions the modelled code can raise. A function that can raise returns
  \<open>error + 'a\<close>, with \<open>Inl\<close> for the exception.
\<close>

datatype error =
    IndexError
  | KeyError
  | ValueError
  | HTTPError
  | RequestException
  | OSError
  | InvalidFileException

text \<open>
  Python's \<^verbatim>\<open>xs[i]\<close> on a list: an index from \<open>0\<close> to \<open>len - 1\<close> counts from the
  front, an index from \<open>-len\<close> to \<open>-1\<close> counts from the end, anything else raises
  IndexError.
\<close>

definition py_getitem :: "'a list \<Rightarrow> int \<Rightarrow> error + 'a" where
  "py_getitem xs i =
     (if 0 \<le> i \<and> i < int (length xs) then Inr (xs ! nat i)
      else if i < 0 \<and> - int (length xs) \<le> i then Inr (xs ! nat (int (length xs) + i))
      else Inl IndexError)"

text \<open>
  Python's \<^verbatim>\<open>str(n)\<close> on an int, which is also what an f-string writes for it:
  the decimal digits, most significant first, no padding, a leading minus sign for
  a negative number.
\<close>

definition digit_char :: "nat \<Rightarrow> char" where
  "digit_char d = ''0123456789'' ! d"

function str_nat :: "nat \<Rightarrow> string" where
  "str_nat n = (if n < 10 then [digit_char n] else str_nat (n div 10) @ [digit_char (n mod 10)])"
  by pat_completeness auto
termination
  by (relation "measure (\<lambda>n. n)") auto

declare str_nat.simps [simp del]

definition str_int :: "int \<Rightarrow> string" where
  "str_int i = (if i < 0 then CHR ''-'' # str_nat (nat (- i)) else str_nat (nat i))"

text \<open>
  \<^verbatim>\<open>str.upper()\<close> and \<^verbatim>\<open>str.lower()\<close>, on the ASCII letters; the program applies
  them to English month names only.
\<close>

definition upper_char :: "char \<Rightarrow> char" where
  "upper_char c =
     (case map_of (zip ''abcdefghijklmnopqrstuvwxyz'' ''ABCDEFGHIJKLMNOPQRSTUVWXYZ'') c of
        None \<Rightarrow> c | Some C \<Rightarrow> C)"

definition lower_char :: "char \<Rightarrow> char" where
  "lower_char c =
     (case map_of (zip ''ABCDEFGHIJKLMNOPQRSTUVWXYZ'' ''abcdefghijklmnopqrstuvwxyz'') c of
        None \<Rightarrow> c | Some C \<Rightarrow> C)"

definition upper :: "string \<Rightarrow> string" where
  "upper s = map upper_char s"

definition lower :: "string \<Rightarrow> string" where
  "lower s = map lower_char s"

section \<open>common.py: months and monthly reports\<close>

text \<open>
  \<^verbatim>\<open>class Month\<close>: the constructor stores the index it is given and checks nothing.
\<close>

record Month =
  month_index :: int

definition short_name :: "Month \<Rightarrow> error + string" where
  "short_name self =
     py_getitem [''jan'', ''feb'', ''mar'', ''apr'', ''may'', ''jun'',
                 ''jul'', ''aug'', ''sep'', ''oct'', ''nov'', ''dec''] (month_index self)"

definition numerical :: "Month \<Rightarrow> int" where
  "numerical self = month_index self + 1"

text \<open>
  \<^verbatim>\<open>Month.__str__\<close> reads \<^verbatim>\<open>calendar.month_name[1 + month_index]\<close>. The standard
  library's \<^verbatim>\<open>month_name\<close> indexes a list of thirteen entries, the empty string
  first; the names are those of the default (English) locale.
\<close>

definition month_name :: "string list" where
  "month_name = ['''', ''January'', ''February'', ''March'', ''April'', ''May'', ''June'',
                 ''July'', ''August'', ''September'', ''October'', ''November'', ''December'']"

definition str_Month :: "Month \<Rightarrow> error + string" where
  "str_Month self = py_getitem month_name (1 + month_index self)"

definition all_months :: "Month list" where
  "all_months = map (\<lambda>i. \<lparr>month_index = i\<rparr>) [0..11]"

text \<open>\<^verbatim>\<open>class MonthlyDataReport\<close>.\<close>

record MonthlyDataReport =
  year :: int
  month :: Month

definition locate_excel_file :: "MonthlyDataReport \<Rightarrow> string \<Rightarrow> string" where
  "locate_excel_file self data_dir =
     data_dir @ ''/'' @ str_int (year self) @ ''-'' @ str_int (numerical (month self)) @ ''.xlsx''"

definition locate_possible_urls :: "MonthlyDataReport \<Rightarrow> error + string list" where
  "locate_possible_urls self =
     (let short_year = drop 2 (str_int (year self)) in
      case short_name (month self) of
        Inl e \<Rightarrow> Inl e
      | Inr short_month \<Rightarrow>
          (let capital_short_name = upper (take 1 short_month) @ drop 1 short_month in
           case str_Month (month self) of
             Inl e \<Rightarrow> Inl e
           | Inr long_month \<Rightarrow>
               (let lower_month = lower long_month;
                    base = ''https://www.bb.org.bd/pub/monthly/econtrds/''
                in Inr
                  [base @ ''et'' @ short_month @ short_year @ ''.xlsx'',
                   base @ ''econtrends_'' @ long_month @ str_int (year self) @ ''.xlsx'',
                   base @ ''econtrends_'' @ lower_month @ str_int (year self) @ ''.xlsx'',
                   base @ ''ET'' @ capital_short_name @ short_year @ ''.xlsx'',
                   base @ ''econtrends_'' @ short_month @ str_int (year self) @ ''.xlsx'',
                   base @ short_month @ short_year @ ''/statisticaltable.xlsx'',
                   base @ short_month @ short_year @ ''/statisticaltable.xls'',
                   base @ lower_month @ short_year @ ''/statisticaltable.xlsx''])))"

definition has_no_data :: "MonthlyDataReport \<Rightarrow> error + bool" where
  "has_no_data self =
     (case short_name (month self) of
        Inl e \<Rightarrow> Inl e
      | Inr name \<Rightarrow> Inr ((name, year self) \<in> set [(''nov'', 2015)]))"

section \<open>The world outside the program\<close>

text \<open>
  What the program reads and changes outside its own objects: the regular files on
  disk with their contents, whether a path can be opened for writing, what
  \<^verbatim>\<open>requests.get(url, stream=True)\<close> gives for a URL (an exception, or the final
  response after redirects have been followed), and the year of the system clock.
  \<open>trace\<close> lists the input and output the program has done, oldest first. Console
  logging (\<^verbatim>\<open>info\<close>, \<^verbatim>\<open>warn\<close>) is left out.
\<close>

datatype event = Probe string | Get string | Write string

record response =
  status_code :: int
  url :: string
  content :: string

record world =
  files :: "string \<rightharpoonup> string"
  writable :: "string \<Rightarrow> bool"
  remote :: "string \<Rightarrow> error + response"
  now_year :: int
  trace :: "event list"

section \<open>merge.py: the merge engine\<close>

text \<open>
  \<^verbatim>\<open>class Timestamp\<close> defines neither \<^verbatim>\<open>__eq__\<close> nor \<^verbatim>\<open>__hash__\<close>, so Python
  compares and hashes its objects by identity: as dictionary keys, two Timestamp
  objects are the same key only when they are the same object. \<open>ident\<close> is that
  identity; two objects made by two constructor calls differ in it. The fields
  \<^verbatim>\<open>month\<close> and \<^verbatim>\<open>year\<close> carry a suffix here, the names being taken by
  \<open>MonthlyDataReport\<close>.
\<close>

record Timestamp =
  ident :: nat
  day :: int
  month_ts :: int
  year_ts :: int

text \<open>
  \<^verbatim>\<open>class RowData\<close> wraps a dict from column label to cell value. The dict is a list
  of pairs in insertion order, which is the order Python iterates it in; the cell
  values are opaque to the program.
\<close>

record 'v RowData =
  data :: "(string \<times> 'v) list"

text \<open>\<^verbatim>\<open>class Sheet\<close>: a set of column labels and a dict from Timestamp to RowData.\<close>

record 'v Sheet =
  columns :: "string set"
  rows :: "Timestamp \<rightharpoonup> 'v RowData"

definition ensure_column :: "'v Sheet \<Rightarrow> string \<Rightarrow> 'v Sheet" where
  "ensure_column self column = self\<lparr>columns := insert column (columns self)\<rparr>"

text \<open>
  \<^verbatim>\<open>for (col, val) in row.data\<close> iterates the dict, which yields its keys, and
  unpacks each key into two targets. A string unpacks into its characters: a label
  of exactly two characters gives its first and its second character, any other
  length raises ValueError.
\<close>

fun unpack_pair :: "string \<Rightarrow> error + string \<times> string" where
  "unpack_pair [a, b] = Inr ([a], [b])"
| "unpack_pair _ = Inl ValueError"

text \<open>
  The loop of \<^verbatim>\<open>add_row\<close> over the keys still to visit. An exception leaves the
  sheet as the iterations before it made it.
\<close>

fun add_row_loop :: "'v Sheet \<Rightarrow> string list \<Rightarrow> (error + unit) \<times> 'v Sheet" where
  "add_row_loop self [] = (Inr (), self)"
| "add_row_loop self (key # keys) =
     (case unpack_pair key of
        Inl e \<Rightarrow> (Inl e, self)
      | Inr (col, val) \<Rightarrow> add_row_loop (ensure_column self col) keys)"

definition add_row :: "'v Sheet \<Rightarrow> Timestamp \<Rightarrow> 'v RowData \<Rightarrow> (error + unit) \<times> 'v Sheet" where
  "add_row self timestamp row =
     (case add_row_loop self (map fst (data row)) of
        (Inl e, self') \<Rightarrow> (Inl e, self')
      | (Inr _, self') \<Rightarrow> (Inr (), self'\<lparr>rows := (rows self')(timestamp \<mapsto> row)\<rparr>))"

text \<open>
  \<^verbatim>\<open>class MergeXL\<close>: a dict from sheet name to Sheet. A stored value is \<open>Some\<close> sheet;
  \<open>None\<close> as a stored value is Python's \<^verbatim>\<open>None\<close>, which
  \<^verbatim>\<open>get_or_create_sheet\<close> tests for. A name that is no key of the dict is outside
  \<open>dom\<close>.
\<close>

record 'v MergeXL =
  sheets :: "string \<rightharpoonup> 'v Sheet option"

definition MergeXL_init :: "'v MergeXL" where
  "MergeXL_init = \<lparr>sheets = Map.empty\<rparr>"

text \<open>
  \<^verbatim>\<open>add_source\<close> opens the file and has openpyxl load it, then returns; the loaded
  workbook is bound to a local name and not used. \<open>load\<close> is
  \<^verbatim>\<open>openpyxl.load_workbook(open(path, 'rb'))\<close>: the workbook of the file, or the
  exception of a missing or unreadable file.
\<close>

definition add_source ::
  "(string \<Rightarrow> error + 'wb) \<Rightarrow> 'v MergeXL \<Rightarrow> string \<Rightarrow> (error + unit) \<times> 'v MergeXL" where
  "add_source load self source_xl =
     (case load source_xl of
        Inl e \<Rightarrow> (Inl e, self)
      | Inr workbook \<Rightarrow> (Inr (), self))"

text \<open>\<^verbatim>\<open>write_to\<close> has the body \<^verbatim>\<open>pass\<close>.\<close>

definition write_to :: "'v MergeXL \<Rightarrow> string \<Rightarrow> world \<Rightarrow> (error + unit) \<times> world" where
  "write_to self output w = (Inr (), w)"

text \<open>
  \<^verbatim>\<open>existing = self.sheets[name]\<close> is a subscript, which raises KeyError for a
  name that is no key of the dict.
\<close>

definition get_or_create_sheet ::
  "'v MergeXL \<Rightarrow> string \<Rightarrow> (error + 'v Sheet) \<times> 'v MergeXL" where
  "get_or_create_sheet self name =
     (case sheets self name of
        None \<Rightarrow> (Inl KeyError, self)
      | Some existing \<Rightarrow>
          (case existing of
             Some sheet \<Rightarrow> (Inr sheet, self)
           | None \<Rightarrow>
               (let new = \<lparr>columns = {}, rows = Map.empty\<rparr>
                in (Inr new, self\<lparr>sheets := (sheets self)(name \<mapsto> Some new)\<rparr>))))"

section \<open>__main__.py: condensing a directory\<close>

text \<open>\<^verbatim>\<open>os.path.join\<close> of a directory and one name, on POSIX.\<close>

definition path_join :: "string \<Rightarrow> string \<Rightarrow> string" where
  "path_join dir name =
     (if take 1 name = ''/'' then name
      else if dir = [] \<or> last dir = CHR ''/'' then dir @ name
      else dir @ ''/'' @ name)"

text \<open>
  The loop of \<^verbatim>\<open>condense_existing\<close>: one \<^verbatim>\<open>add_source\<close> per path, in order, the
  first exception ending it.
\<close>

fun add_sources ::
  "(string \<Rightarrow> error + 'wb) \<Rightarrow> 'v MergeXL \<Rightarrow> string list \<Rightarrow> (error + unit) \<times> 'v MergeXL" where
  "add_sources load self [] = (Inr (), self)"
| "add_sources load self (path # paths) =
     (case add_source load self path of
        (Inl e, self') \<Rightarrow> (Inl e, self')
      | (Inr _, self') \<Rightarrow> add_sources load self' paths)"

text \<open>\<open>listing\<close> is what \<^verbatim>\<open>os.listdir(data_dir)\<close> returns.\<close>

definition condense_existing ::
  "(string \<Rightarrow> error + 'wb) \<Rightarrow> string list \<Rightarrow> string \<Rightarrow> world \<Rightarrow> (error + unit) \<times> world" where
  "condense_existing load listing dir w =
     (case add_sources load (MergeXL_init :: unit MergeXL) (map (path_join dir) listing) of
        (Inl e, mergexl) \<Rightarrow> (Inl e, w)
      | (Inr _, mergexl) \<Rightarrow> write_to mergexl ''merged.xlsx'' w)"

section \<open>download.py: acquisition\<close>

record Download =
  data_dir :: string

definition current_year :: "world \<Rightarrow> int" where
  "current_year w = now_year w"

text \<open>
  The loop of \<^verbatim>\<open>download_if_possible\<close> over the candidate URLs still to try.
  \<^verbatim>\<open>raise_for_status\<close> raises HTTPError for a status from 400 to 599. The file is
  written only after a response that is neither.
\<close>

fun try_urls :: "string \<Rightarrow> string list \<Rightarrow> string list \<Rightarrow> world \<Rightarrow> (error + bool) \<times> world" where
  "try_urls filename urls [] w = (Inr False, w)"
| "try_urls filename urls (u # rest) w =
     (let w1 = w\<lparr>trace := trace w @ [Get u]\<rparr> in
      case remote w u of
        Inl e \<Rightarrow> (Inl e, w1)
      | Inr request \<Rightarrow>
          if status_code request = 404 then try_urls filename urls rest w1
          else if 400 \<le> status_code request \<and> status_code request < 600 then (Inl HTTPError, w1)
          else if url request \<notin> set urls then try_urls filename urls rest w1
          else if \<not> writable w filename then (Inl OSError, w1)
          else (Inr True,
                w1\<lparr>files := (files w1)(filename \<mapsto> content request),
                   trace := trace w1 @ [Write filename]\<rparr>))"

definition download_if_possible ::
  "Download \<Rightarrow> MonthlyDataReport \<Rightarrow> world \<Rightarrow> (error + bool) \<times> world" where
  "download_if_possible self report w =
     (let filename = locate_excel_file report (data_dir self);
          w1 = w\<lparr>trace := trace w @ [Probe filename]\<rparr>
      in if files w filename \<noteq> None then (Inr True, w1)
         else case locate_possible_urls report of
                Inl e \<Rightarrow> (Inl e, w1)
              | Inr urls \<Rightarrow> try_urls filename urls urls w1)"

text \<open>The inner loop of \<^verbatim>\<open>download_new\<close>, over the months of one year.\<close>

fun download_months :: "Download \<Rightarrow> int \<Rightarrow> Month list \<Rightarrow> world \<Rightarrow> (error + unit) \<times> world" where
  "download_months self y [] w = (Inr (), w)"
| "download_months self y (m # ms) w =
     (let report = \<lparr>year = y, month = m\<rparr> in
      case has_no_data report of
        Inl e \<Rightarrow> (Inl e, w)
      | Inr no_data \<Rightarrow>
          if no_data then download_months self y ms w
          else (case download_if_possible self report w of
                  (Inl e, w') \<Rightarrow> (Inl e, w')
                | (Inr _, w') \<Rightarrow> download_months self y ms w'))"

text \<open>The outer loop, over the years.\<close>

fun download_years :: "Download \<Rightarrow> int list \<Rightarrow> world \<Rightarrow> (error + unit) \<times> world" where
  "download_years self [] w = (Inr (), w)"
| "download_years self (y # ys) w =
     (case download_months self y all_months w of
        (Inl e, w') \<Rightarrow> (Inl e, w')
      | (Inr _, w') \<Rightarrow> download_years self ys w')"

definition download_new :: "Download \<Rightarrow> world \<Rightarrow> (error + unit) \<times> world" where
  "download_new self w = download_years self [2012..current_year w] w"

section \<open>Inputs and predicates of the statements\<close>

text \<open>The month numbers as the file names write them: 1 to 12, no leading zero.\<close>

definition month_numbers :: "string list" where
  "month_numbers = map (\<lambda>c. [c]) ''123456789'' @ [''10'', ''11'', ''12'']"

definition nov_2015 :: MonthlyDataReport where
  "nov_2015 = \<lparr>year = 2015, month = \<lparr>month_index = 10\<rparr>\<rparr>"

definition jan_2021_report :: MonthlyDataReport where
  "jan_2021_report = \<lparr>year = 2021, month = \<lparr>month_index = 0\<rparr>\<rparr>"

definition jan_2021_urls :: "string list" where
  "jan_2021_urls =
     [''https://www.bb.org.bd/pub/monthly/econtrds/etjan21.xlsx'',
      ''https://www.bb.org.bd/pub/monthly/econtrds/econtrends_January2021.xlsx'',
      ''https://www.bb.org.bd/pub/monthly/econtrds/econtrends_january2021.xlsx'',
      ''https://www.bb.org.bd/pub/monthly/econtrds/ETJan21.xlsx'',
      ''https://www.bb.org.bd/pub/monthly/econtrds/econtrends_jan2021.xlsx'',
      ''https://www.bb.org.bd/pub/monthly/econtrds/jan21/statisticaltable.xlsx'',
      ''https://www.bb.org.bd/pub/monthly/econtrds/jan21/statisticaltable.xls'',
      ''https://www.bb.org.bd/pub/monthly/econtrds/january21/statisticaltable.xlsx'']"

definition data_download :: Download where
  "data_download = \<lparr>data_dir = ''data''\<rparr>"

text \<open>
  A source file \<^verbatim>\<open>data/2021-1.xlsx\<close> with one tab, Prices, whose row has the
  columns A and B; no other path can be read.
\<close>

definition prices_workbook :: "(string \<times> int RowData) list" where
  "prices_workbook = [(''Prices'', \<lparr>data = [(''A'', 1), (''B'', 2)]\<rparr>)]"

definition prices_reader :: "string \<Rightarrow> error + (string \<times> int RowData) list" where
  "prices_reader path = (if path = ''data/2021-1.xlsx'' then Inr prices_workbook else Inl OSError)"

text \<open>Two Timestamp objects for the same date, made by two constructor calls.\<close>

definition jan_2021 :: Timestamp where
  "jan_2021 = \<lparr>ident = 0, day = 1, month_ts = 1, year_ts = 2021\<rparr>"

definition jan_2021_again :: Timestamp where
  "jan_2021_again = \<lparr>ident = 1, day = 1, month_ts = 1, year_ts = 2021\<rparr>"

text \<open>\<^verbatim>\<open>Sheet(set(), dict())\<close>, and rows with one cell each.\<close>

definition new_sheet :: "int Sheet" where
  "new_sheet = \<lparr>columns = {}, rows = Map.empty\<rparr>"

definition m1_row :: "int RowData" where
  "m1_row = \<lparr>data = [(''M1'', 10)]\<rparr>"

definition m2_row :: "int RowData" where
  "m2_row = \<lparr>data = [(''M2'', 20)]\<rparr>"

definition price_row :: "int RowData" where
  "price_row = \<lparr>data = [(''Price'', 10)]\<rparr>"

text \<open>An engine that holds one sheet with one row.\<close>

definition prices_engine :: "int MergeXL" where
  "prices_engine =
     \<lparr>sheets = [''Prices'' \<mapsto> Some \<lparr>columns = {''A''}, rows = [jan_2021 \<mapsto> \<lparr>data = [(''A'', 1)]\<rparr>]\<rparr>]\<rparr>"

text \<open>
  Worlds. \<open>not_published\<close>: no local file; the first candidate URL of January 2021
  redirects to the site's home page, every other URL answers 404.
  \<open>already_on_disk\<close>: every URL answers 404 and the file of January 2021 is there.
  \<open>redirect_to_error\<close>: no local file, every URL redirects to an error page that
  answers 500. \<open>mirrored_2015\<close>: the year is 2015 and every path is a file.
\<close>

definition not_published :: world where
  "not_published =
     \<lparr>files = Map.empty, writable = (\<lambda>p. True),
      remote = (\<lambda>u. if u = ''https://www.bb.org.bd/pub/monthly/econtrds/etjan21.xlsx''
                     then Inr \<lparr>status_code = 200, url = ''https://www.bb.org.bd/'', content = ''home''\<rparr>
                     else Inr \<lparr>status_code = 404, url = u, content = ''''\<rparr>),
      now_year = 2021, trace = []\<rparr>"

definition already_on_disk :: world where
  "already_on_disk =
     \<lparr>files = [''data/2021-1.xlsx'' \<mapsto> ''saved''], writable = (\<lambda>p. True),
      remote = (\<lambda>u. Inr \<lparr>status_code = 404, url = u, content = ''''\<rparr>),
      now_year = 2021, trace = []\<rparr>"

definition redirect_to_error :: world where
  "redirect_to_error =
     \<lparr>files = Map.empty, writable = (\<lambda>p. True),
      remote = (\<lambda>u. Inr \<lparr>status_code = 500, url = ''https://www.bb.org.bd/error'', content = ''''\<rparr>),
      now_year = 2021, trace = []\<rparr>"

definition mirrored_2015 :: world where
  "mirrored_2015 =
     \<lparr>files = (\<lambda>p. Some ''saved''), writable = (\<lambda>p. True),
      remote = (\<lambda>u. Inl RequestException), now_year = 2015, trace = []\<rparr>"

text \<open>
  A candidate URL fails in the words of the specification when it answers 404 or
  its final URL is not in the candidate list.
\<close>

definition fails_as_claimed :: "string list \<Rightarrow> error + response \<Rightarrow> bool" where
  "fails_as_claimed urls answer =
     (case answer of Inl e \<Rightarrow> False | Inr r \<Rightarrow> status_code r = 404 \<or> url r \<notin> set urls)"

text \<open>
  What the code takes for "not available": a 404, or a status outside 400 to 599
  together with a final URL that is not in the candidate list.
\<close>

definition gone :: "string list \<Rightarrow> error + response \<Rightarrow> bool" where
  "gone urls answer =
     (case answer of
        Inl e \<Rightarrow> False
      | Inr r \<Rightarrow> status_code r = 404 \<or>
                 ((status_code r < 400 \<or> 600 \<le> status_code r) \<and> url r \<notin> set urls))"

text \<open>
  The input and output one call of \<open>download_if_possible\<close> for a report can do:
  test for the report's local file, request one of its candidate URLs, write its
  local file.
\<close>

definition event_of_report :: "Download \<Rightarrow> MonthlyDataReport \<Rightarrow> event \<Rightarrow> bool" where
  "event_of_report self report e =
     (case e of
        Probe f \<Rightarrow> f = locate_excel_file report (data_dir self)
      | Write f \<Rightarrow> f = locate_excel_file report (data_dir self)
      | Get u \<Rightarrow> (case locate_possible_urls report of Inl x \<Rightarrow> False | Inr urls \<Rightarrow> u \<in> set urls))"

section \<open>Decimal rendering and file names\<close>

lemma digit_char_inj:
  assumes "d < 10" "d' < 10" "digit_char d = digit_char d'"
  shows "d = d'"
proof -
  have "distinct ''0123456789''" by simp
  from nth_eq_iff_index_eq [OF this, of d d'] assms show ?thesis
    by (simp add: digit_char_def)
qed

lemma digit_char_not_minus: "d < 10 \<Longrightarrow> digit_char d \<noteq> CHR ''-''"
proof -
  assume "d < 10"
  then have "digit_char d \<in> set ''0123456789''"
    unfolding digit_char_def by (intro nth_mem) simp
  then show ?thesis by auto
qed

lemma str_nat_not_Nil: "str_nat n \<noteq> []"
  by (subst str_nat.simps) simp

lemma minus_notin_str_nat: "CHR ''-'' \<notin> set (str_nat n)"
proof (induction n rule: str_nat.induct)
  case (1 n)
  show ?case
  proof (cases "n < 10")
    case True
    then show ?thesis
      using digit_char_not_minus [of n] by (subst str_nat.simps) auto
  next
    case False
    have "n mod 10 < 10" by simp
    from digit_char_not_minus [OF this] "1.IH" [OF False] False
    show ?thesis by (subst str_nat.simps) auto
  qed
qed

lemma str_nat_inj: "str_nat n = str_nat m \<Longrightarrow> n = m"
proof (induction n arbitrary: m rule: str_nat.induct)
  case (1 n)
  show ?case
  proof (cases "n < 10")
    case n: True
    show ?thesis
    proof (cases "m < 10")
      case True
      with n "1.prems" show ?thesis
        by (simp add: str_nat.simps [of n] str_nat.simps [of m] digit_char_inj)
    next
      case False
      with n "1.prems" str_nat_not_Nil [of "m div 10"] show ?thesis
        by (simp add: str_nat.simps [of n] str_nat.simps [of m])
    qed
  next
    case n: False
    show ?thesis
    proof (cases "m < 10")
      case True
      with n "1.prems" str_nat_not_Nil [of "n div 10"] show ?thesis
        by (simp add: str_nat.simps [of n] str_nat.simps [of m])
    next
      case False
      with n "1.prems"
      have q: "str_nat (n div 10) = str_nat (m div 10)"
        and r: "digit_char (n mod 10) = digit_char (m mod 10)"
        by (simp_all add: str_nat.simps [of n] str_nat.simps [of m])
      from "1.IH" [OF n q] have "n div 10 = m div 10" .
      moreover from r have "n mod 10 = m mod 10"
        by (intro digit_char_inj) simp_all
      ultimately show ?thesis
        by (metis div_mult_mod_eq)
    qed
  qed
qed

lemma split_at_separator:
  "c \<notin> set xs \<Longrightarrow> c \<notin> set xs' \<Longrightarrow> xs @ c # ys = xs' @ c # ys' \<Longrightarrow> xs = xs' \<and> ys = ys'"
proof (induction xs arbitrary: xs')
  case Nil
  then show ?case by (cases xs') auto
next
  case (Cons x xs)
  then show ?case by (cases xs') auto
qed

lemma locate_excel_file_inj:
  assumes y: "0 \<le> year r" "0 \<le> year r'"
    and m: "0 \<le> month_index (month r)" "0 \<le> month_index (month r')"
    and eq: "locate_excel_file r d = locate_excel_file r' d"
  shows "year r = year r' \<and> month_index (month r) = month_index (month r')"
proof -
  let ?a = "str_nat (nat (year r))" and ?a' = "str_nat (nat (year r'))"
  let ?b = "str_nat (nat (month_index (month r) + 1))"
  let ?b' = "str_nat (nat (month_index (month r') + 1))"
  from eq y m have "?a @ CHR ''-'' # (?b @ ''.xlsx'') = ?a' @ CHR ''-'' # (?b' @ ''.xlsx'')"
    by (simp add: locate_excel_file_def str_int_def numerical_def)
  from split_at_separator [OF minus_notin_str_nat minus_notin_str_nat this]
  have "?a = ?a'" and "?b = ?b'" by simp_all
  then have "nat (year r) = nat (year r')"
    and "nat (month_index (month r) + 1) = nat (month_index (month r') + 1)"
    by (auto dest: str_nat_inj)
  with y m show ?thesis by (simp add: nat_eq_iff)
qed

lemma month_index_cases:
  "0 \<le> (i::int) \<Longrightarrow> i \<le> 11 \<Longrightarrow>
   i = 0 \<or> i = 1 \<or> i = 2 \<or> i = 3 \<or> i = 4 \<or> i = 5 \<or> i = 6 \<or> i = 7 \<or> i = 8 \<or> i = 9 \<or> i = 10 \<or> i = 11"
  by arith

lemma str_int_numerical:
  assumes "0 \<le> month_index m" "month_index m \<le> 11"
  shows "str_int (numerical m) = month_numbers ! nat (month_index m)"
proof -
  from month_index_cases [OF assms]
  show ?thesis
    by (elim disjE) (simp_all add: numerical_def str_int_def str_nat.simps digit_char_def month_numbers_def)
qed

lemma all_months_list:
  "all_months = map (\<lambda>i. \<lparr>month_index = i\<rparr>) [0, 1, 2, 3, 4, 5, 6, 7, 8, 9, 10, 11]"
  by (simp add: all_months_def upto.simps)

lemma all_months_index: "m \<in> set all_months \<Longrightarrow> 0 \<le> month_index m \<and> month_index m \<le> 11"
  by (auto simp: all_months_def)

lemma jan_2021_candidates: "locate_possible_urls jan_2021_report = Inr jan_2021_urls"
  by (simp add: locate_possible_urls_def jan_2021_report_def jan_2021_urls_def short_name_def
      str_Month_def month_name_def py_getitem_def str_int_def str_nat.simps digit_char_def
      upper_def lower_def upper_char_def lower_char_def)

lemma jan_2021_file: "locate_excel_file jan_2021_report (data_dir data_download) = ''data/2021-1.xlsx''"
  by (simp add: locate_excel_file_def jan_2021_report_def data_download_def numerical_def
      str_int_def str_nat.simps digit_char_def)

lemma nov_2015_file: "locate_excel_file nov_2015 (data_dir data_download) = ''data/2015-11.xlsx''"
  by (simp add: locate_excel_file_def nov_2015_def data_download_def numerical_def
      str_int_def str_nat.simps digit_char_def)

section \<open>Months and report identities\<close>

text \<open>
  C6, the claim as stated: an index outside 0 to 11 makes the short name and the
  numerical form fail with InvalidMonthIndex. It does not hold. Index \<open>-1\<close> has
  the short name of December, index 12 raises IndexError (the code has no
  InvalidMonthIndex), and the numerical form of index 12 is 13.
\<close>

theorem month_index_outside_range_counterexample:
  "short_name \<lparr>month_index = - 1\<rparr> = Inr ''dec'' \<and>
   short_name \<lparr>month_index = 12\<rparr> = Inl IndexError \<and>
   numerical \<lparr>month_index = 12\<rparr> = 13"
  by (simp add: short_name_def py_getitem_def numerical_def)

text \<open>
  C6, as amended: the numerical form never fails and is the index plus one, for
  every integer. For an index from 0 to 11 the short name is the entry of the table
  at that index, with no failure. For an index from \<open>-12\<close> to \<open>-1\<close> the short name
  is that of the index plus twelve. For every other index the short name raises
  IndexError.
\<close>

theorem month_queries_by_index:
  "numerical \<lparr>month_index = i\<rparr> = i + 1 \<and>
   (0 \<le> i \<and> i \<le> 11 \<longrightarrow>
      short_name \<lparr>month_index = i\<rparr> =
        Inr ([''jan'', ''feb'', ''mar'', ''apr'', ''may'', ''jun'',
              ''jul'', ''aug'', ''sep'', ''oct'', ''nov'', ''dec''] ! nat i)) \<and>
   (- 12 \<le> i \<and> i < 0 \<longrightarrow>
      short_name \<lparr>month_index = i\<rparr> = short_name \<lparr>month_index = i + 12\<rparr>) \<and>
   (i < - 12 \<or> 11 < i \<longrightarrow> short_name \<lparr>month_index = i\<rparr> = Inl IndexError)"
  by (simp add: numerical_def short_name_def py_getitem_def add.commute)

text \<open>The amended C6 at the indices 10, \<open>-2\<close> and 12.\<close>

theorem month_queries_by_index_witness:
  "numerical \<lparr>month_index = 10\<rparr> = 11 \<and>
   short_name \<lparr>month_index = 10\<rparr> = Inr ''nov'' \<and>
   short_name \<lparr>month_index = - 2\<rparr> = short_name \<lparr>month_index = 10\<rparr> \<and>
   short_name \<lparr>month_index = 12\<rparr> = Inl IndexError"
  using month_queries_by_index [of 10] month_queries_by_index [of "- 2"]
    month_queries_by_index [of 12]
  by simp

text \<open>
  C8: for every year and every month index from 0 to 11, the local file name of
  the report is the directory, a slash, the year in decimal, a hyphen, the month
  number from 1 to 12 without leading zero, and \<^verbatim>\<open>.xlsx\<close>. It is a function of
  the year, the month and the directory alone.
\<close>

theorem locate_excel_file_name:
  "0 \<le> month_index (month r) \<Longrightarrow> month_index (month r) \<le> 11 \<Longrightarrow>
   locate_excel_file r d =
     d @ ''/'' @ str_int (year r) @ ''-'' @ month_numbers ! nat (month_index (month r)) @ ''.xlsx''"
  by (simp add: locate_excel_file_def str_int_numerical)

text \<open>C8 for March 2021 in the directory \<^verbatim>\<open>data\<close>.\<close>

theorem locate_excel_file_name_witness:
  "locate_excel_file \<lparr>year = 2021, month = \<lparr>month_index = 2\<rparr>\<rparr> ''data'' = ''data/2021-3.xlsx''"
  using locate_excel_file_name [of "\<lparr>year = 2021, month = \<lparr>month_index = 2\<rparr>\<rparr>" "''data''"]
  by (simp add: month_numbers_def str_int_def str_nat.simps digit_char_def)

text \<open>
  C9: the report of November 2015 has no data, the report of November 2016 has,
  and for every year and every month index from 0 to 11 the predicate is true
  exactly for November 2015.
\<close>

theorem has_no_data_exceptions:
  "has_no_data \<lparr>year = 2015, month = \<lparr>month_index = 10\<rparr>\<rparr> = Inr True \<and>
   has_no_data \<lparr>year = 2016, month = \<lparr>month_index = 10\<rparr>\<rparr> = Inr False \<and>
   (\<forall>y i. 0 \<le> i \<and> i \<le> 11 \<longrightarrow>
      has_no_data \<lparr>year = y, month = \<lparr>month_index = i\<rparr>\<rparr> = Inr (y = 2015 \<and> i = 10))"
proof -
  have "has_no_data \<lparr>year = y, month = \<lparr>month_index = i\<rparr>\<rparr> = Inr (y = 2015 \<and> i = 10)"
    if "0 \<le> i" "i \<le> 11" for y i
    using month_index_cases [OF that]
    by (elim disjE) (simp_all add: has_no_data_def short_name_def py_getitem_def)
  then show ?thesis by simp
qed

text \<open>C9 for October 2015 and November 2014.\<close>

theorem has_no_data_exceptions_witness:
  "has_no_data \<lparr>year = 2015, month = \<lparr>month_index = 9\<rparr>\<rparr> = Inr False \<and>
   has_no_data \<lparr>year = 2014, month = \<lparr>month_index = 10\<rparr>\<rparr> = Inr False"
  using has_no_data_exceptions by simp

section \<open>The merge engine\<close>

text \<open>The engine after any run of \<open>add_source\<close> calls is the engine before it.\<close>

lemma add_sources_engine: "snd (add_sources load self paths) = self"
  by (induction paths arbitrary: self) (auto simp: add_source_def split: sum.splits)

text \<open>
  C1: after the source files are fed to the engine, the sheet of a tab has the
  union of the column labels of the files' rows for that tab. The code does not do
  this: fed the file \<^verbatim>\<open>data/2021-1.xlsx\<close>, whose tab Prices has the columns A and
  B, the engine is still the empty engine and has no sheet Prices.
\<close>

theorem add_source_keeps_no_columns:
  "add_sources prices_reader (MergeXL_init :: int MergeXL) (map (path_join ''data'') [''2021-1.xlsx''])
     = (Inr (), MergeXL_init) \<and>
   sheets (MergeXL_init :: int MergeXL) ''Prices'' = None"
  by (simp add: path_join_def add_source_def prices_reader_def MergeXL_init_def)

text \<open>
  C2: \<open>write_to\<close> produces a workbook with one tab per sheet of the engine. The
  code does not do this: for an engine with a sheet Prices, and at the end of
  \<open>condense_existing\<close>, the world after \<open>write_to\<close> is the world before it, with no
  file \<^verbatim>\<open>merged.xlsx\<close>.
\<close>

theorem write_to_writes_nothing:
  "write_to prices_engine ''merged.xlsx'' not_published = (Inr (), not_published) \<and>
   files not_published ''merged.xlsx'' = None \<and>
   condense_existing prices_reader [''2021-1.xlsx''] ''data'' not_published = (Inr (), not_published)"
  by (simp add: write_to_def not_published_def condense_existing_def path_join_def add_source_def
      prices_reader_def)

text \<open>
  C3: \<open>get_or_create_sheet\<close> creates and stores a new empty sheet for a name seen
  for the first time. The code does not do this: on the empty engine the name
  Prices raises KeyError and the engine stays empty.
\<close>

theorem get_or_create_sheet_first_seen_name:
  "get_or_create_sheet (MergeXL_init :: int MergeXL) ''Prices'' = (Inl KeyError, MergeXL_init)"
  by (simp add: get_or_create_sheet_def MergeXL_init_def)

text \<open>The part of C4 that the code keeps: \<open>add_row\<close> and \<open>ensure_column\<close> never remove a column.\<close>

lemma add_row_loop_columns: "columns self \<subseteq> columns (snd (add_row_loop self keys))"
proof (induction keys arbitrary: self)
  case Nil
  show ?case by simp
next
  case (Cons key keys)
  show ?case
  proof (cases "unpack_pair key")
    case (Inl e)
    then show ?thesis by simp
  next
    case (Inr p)
    obtain col val where p: "p = (col, val)" by (cases p)
    have "columns self \<subseteq> columns (ensure_column self col)"
      by (auto simp: ensure_column_def)
    also have "\<dots> \<subseteq> columns (snd (add_row_loop (ensure_column self col) keys))"
      by (rule Cons.IH)
    finally show ?thesis using Inr p by simp
  qed
qed

lemma add_row_columns_grow: "columns self \<subseteq> columns (snd (add_row self timestamp row))"
  using add_row_loop_columns [of self "map fst (data row)"]
  by (auto simp: add_row_def split: prod.splits sum.splits)

lemma ensure_column_columns_grow: "columns self \<subseteq> columns (ensure_column self column)"
  by (auto simp: ensure_column_def)

text \<open>
  C4: after \<open>add_row\<close> the columns of the sheet contain every column label of every
  stored row. The code does not do this: the row with the one label M1 is stored,
  and the columns are then the set of the one label M, without M1. A row with the
  label Price raises ValueError and is not stored.
\<close>

theorem add_row_misses_column_labels:
  "add_row new_sheet jan_2021 m1_row =
     (Inr (), \<lparr>columns = {''M''}, rows = [jan_2021 \<mapsto> m1_row]\<rparr>) \<and>
   ''M1'' \<in> set (map fst (data m1_row)) \<and>
   ''M1'' \<notin> columns (snd (add_row new_sheet jan_2021 m1_row)) \<and>
   add_row new_sheet jan_2021 price_row = (Inl ValueError, new_sheet)"
  by (simp add: add_row_def ensure_column_def new_sheet_def m1_row_def price_row_def)

text \<open>
  C5: of two rows added under Timestamps with equal day, month and year, the later
  one replaces the earlier one. The code does not do this: for two Timestamp
  objects of 1 January 2021 the sheet holds both rows afterwards, one under each
  object.
\<close>

theorem add_row_keeps_both_rows:
  "rows (snd (add_row (snd (add_row new_sheet jan_2021 m1_row)) jan_2021_again m2_row)) =
     [jan_2021 \<mapsto> m1_row, jan_2021_again \<mapsto> m2_row] \<and>
   jan_2021 \<noteq> jan_2021_again \<and>
   (day jan_2021, month_ts jan_2021, year_ts jan_2021) =
   (day jan_2021_again, month_ts jan_2021_again, year_ts jan_2021_again)"
  by (simp add: add_row_def ensure_column_def new_sheet_def m1_row_def m2_row_def
      jan_2021_def jan_2021_again_def)

section \<open>Acquisition\<close>

lemma try_urls_all_gone:
  "list_all (\<lambda>u. gone urls (remote w u)) rest \<Longrightarrow>
   try_urls filename urls rest w = (Inr False, w\<lparr>trace := trace w @ map Get rest\<rparr>)"
proof (induction rest arbitrary: w)
  case Nil
  show ?case by simp
next
  case (Cons u rest)
  let ?w1 = "w\<lparr>trace := trace w @ [Get u]\<rparr>"
  from Cons.prems have here: "gone urls (remote w u)"
    and later: "list_all (\<lambda>u. gone urls (remote ?w1 u)) rest"
    by simp_all
  from Cons.IH [OF later]
  have "try_urls filename urls rest ?w1 = (Inr False, w\<lparr>trace := trace w @ map Get (u # rest)\<rparr>)"
    by simp
  with here show ?case
    by (auto simp: gone_def Let_def split: sum.splits)
qed

text \<open>
  C7, the claim as stated: when every candidate URL answers 404 or redirects to a
  URL outside the candidate list, \<open>download_if_possible\<close> returns False and raises
  nothing. It does not hold. With the report's file already on disk the call
  returns True and requests nothing; with redirects to a page that answers 500 the
  call raises HTTPError.
\<close>

theorem download_if_possible_counterexample:
  "list_all (\<lambda>u. fails_as_claimed jan_2021_urls (remote already_on_disk u)) jan_2021_urls \<and>
   download_if_possible data_download jan_2021_report already_on_disk =
     (Inr True, already_on_disk\<lparr>trace := [Probe ''data/2021-1.xlsx'']\<rparr>) \<and>
   list_all (\<lambda>u. fails_as_claimed jan_2021_urls (remote redirect_to_error u)) jan_2021_urls \<and>
   fst (download_if_possible data_download jan_2021_report redirect_to_error) = Inl HTTPError"
proof -
  have "list_all (\<lambda>u. fails_as_claimed jan_2021_urls (remote already_on_disk u)) jan_2021_urls"
    by (simp add: fails_as_claimed_def already_on_disk_def jan_2021_urls_def)
  moreover have "download_if_possible data_download jan_2021_report already_on_disk =
      (Inr True, already_on_disk\<lparr>trace := [Probe ''data/2021-1.xlsx'']\<rparr>)"
    by (simp add: download_if_possible_def jan_2021_file Let_def already_on_disk_def)
  moreover have "list_all (\<lambda>u. fails_as_claimed jan_2021_urls (remote redirect_to_error u)) jan_2021_urls"
    by (simp add: fails_as_claimed_def redirect_to_error_def jan_2021_urls_def)
  moreover have "fst (download_if_possible data_download jan_2021_report redirect_to_error) = Inl HTTPError"
    by (simp add: download_if_possible_def jan_2021_file jan_2021_candidates Let_def
        redirect_to_error_def jan_2021_urls_def)
  ultimately show ?thesis by simp
qed

text \<open>
  C7, as amended: when the report's local file does not exist and every candidate
  URL answers either 404 or a status outside 400 to 599 with a final URL outside
  the candidate list, \<open>download_if_possible\<close> returns False and raises nothing; it
  has then tested for the local file and requested every candidate URL once, in
  the order of the list, and has written no file.
\<close>

theorem download_if_possible_unavailable:
  assumes "files w (locate_excel_file report (data_dir self)) = None"
    and "locate_possible_urls report = Inr urls"
    and "list_all (\<lambda>u. gone urls (remote w u)) urls"
  shows "download_if_possible self report w =
    (Inr False,
     w\<lparr>trace := trace w @ Probe (locate_excel_file report (data_dir self)) # map Get urls\<rparr>)"
proof -
  let ?f = "locate_excel_file report (data_dir self)"
  let ?w1 = "w\<lparr>trace := trace w @ [Probe ?f]\<rparr>"
  from assms(3) have "list_all (\<lambda>u. gone urls (remote ?w1 u)) urls" by simp
  from try_urls_all_gone [OF this, of ?f]
  show ?thesis using assms(1,2) by (simp add: download_if_possible_def)
qed

text \<open>
  The amended C7 for January 2021, where the first candidate redirects to the home
  page and the seven others answer 404.
\<close>

theorem download_if_possible_unavailable_witness:
  "download_if_possible data_download jan_2021_report not_published =
     (Inr False, not_published\<lparr>trace := Probe ''data/2021-1.xlsx'' # map Get jan_2021_urls\<rparr>)"
proof -
  have 1: "files not_published (locate_excel_file jan_2021_report (data_dir data_download)) = None"
    by (simp add: not_published_def)
  have 3: "list_all (\<lambda>u. gone jan_2021_urls (remote not_published u)) jan_2021_urls"
    by (simp add: gone_def not_published_def jan_2021_urls_def)
  from download_if_possible_unavailable [OF 1 jan_2021_candidates 3]
  show ?thesis by (simp add: jan_2021_file not_published_def)
qed

text \<open>The input and output of the loops is that of their calls of \<open>download_if_possible\<close>.\<close>

lemma try_urls_events:
  "\<exists>evs. trace (snd (try_urls f urls rest w)) = trace w @ evs \<and>
     (\<forall>e\<in>set evs. e = Write f \<or> (\<exists>u\<in>set rest. e = Get u))"
proof (induction rest arbitrary: w)
  case Nil
  show ?case by simp
next
  case (Cons u rest)
  let ?w1 = "w\<lparr>trace := trace w @ [Get u]\<rparr>"
  let ?new = "\<lambda>evs. trace (snd (try_urls f urls (u # rest) w)) = trace w @ evs"
  from Cons.IH [of ?w1] obtain evs
    where evs: "trace (snd (try_urls f urls rest ?w1)) = trace w @ Get u # evs"
      "\<forall>e\<in>set evs. e = Write f \<or> (\<exists>u\<in>set rest. e = Get u)"
    by auto
  have "?new (Get u # evs) \<or> ?new [Get u] \<or> ?new [Get u, Write f]"
    using evs(1) by (cases "remote w u") (simp_all add: Let_def)
  then show ?case
  proof (elim disjE)
    assume "?new (Get u # evs)"
    moreover from evs(2)
    have "\<forall>e\<in>set (Get u # evs). e = Write f \<or> (\<exists>v\<in>set (u # rest). e = Get v)" by auto
    ultimately show ?thesis by blast
  next
    assume "?new [Get u]"
    moreover have "\<forall>e\<in>set [Get u]. e = Write f \<or> (\<exists>v\<in>set (u # rest). e = Get v)" by simp
    ultimately show ?thesis by blast
  next
    assume "?new [Get u, Write f]"
    moreover have "\<forall>e\<in>set [Get u, Write f]. e = Write f \<or> (\<exists>v\<in>set (u # rest). e = Get v)"
      by simp
    ultimately show ?thesis by blast
  qed
qed

lemma download_if_possible_events:
  "\<exists>evs. trace (snd (download_if_possible self report w)) = trace w @ evs \<and>
     (\<forall>e\<in>set evs. event_of_report self report e)"
proof (cases "files w (locate_excel_file report (data_dir self)) = None
    \<and> (\<exists>urls. locate_possible_urls report = Inr urls)")
  case False
  let ?f = "locate_excel_file report (data_dir self)"
  from False have "trace (snd (download_if_possible self report w)) = trace w @ [Probe ?f]"
    by (auto simp: download_if_possible_def Let_def split: sum.splits)
  moreover have "\<forall>e\<in>set [Probe ?f]. event_of_report self report e"
    by (simp add: event_of_report_def)
  ultimately show ?thesis by blast
next
  case True
  let ?f = "locate_excel_file report (data_dir self)"
  let ?w1 = "w\<lparr>trace := trace w @ [Probe ?f]\<rparr>"
  from True obtain urls where urls: "locate_possible_urls report = Inr urls" by blast
  with True have call: "download_if_possible self report w = try_urls ?f urls urls ?w1"
    by (simp add: download_if_possible_def Let_def)
  from try_urls_events [of ?f urls urls ?w1] obtain evs
    where evs: "trace (snd (try_urls ?f urls urls ?w1)) = trace w @ Probe ?f # evs"
      "\<forall>e\<in>set evs. e = Write ?f \<or> (\<exists>u\<in>set urls. e = Get u)"
    by auto
  from evs(2) urls have "\<forall>e\<in>set (Probe ?f # evs). event_of_report self report e"
    by (auto simp: event_of_report_def)
  moreover from evs(1) call
  have "trace (snd (download_if_possible self report w)) = trace w @ Probe ?f # evs" by simp
  ultimately show ?thesis by blast
qed

lemma download_months_events:
  "\<exists>evs. trace (snd (download_months self y ms w)) = trace w @ evs \<and>
     (\<forall>e\<in>set evs. \<exists>m\<in>set ms.
        has_no_data \<lparr>year = y, month = m\<rparr> = Inr False \<and>
        event_of_report self \<lparr>year = y, month = m\<rparr> e)"
proof (induction ms arbitrary: w)
  case Nil
  show ?case by simp
next
  case (Cons m ms)
  let ?r = "\<lparr>year = y, month = m\<rparr>"
  let ?P = "\<lambda>ms e. \<exists>m\<in>set ms. has_no_data \<lparr>year = y, month = m\<rparr> = Inr False \<and>
        event_of_report self \<lparr>year = y, month = m\<rparr> e"
  show ?case
  proof (cases "has_no_data ?r")
    case (Inl x)
    then show ?thesis by simp
  next
    case (Inr no_data)
    show ?thesis
    proof (cases no_data)
      case True
      with Inr have "download_months self y (m # ms) w = download_months self y ms w" by simp
      with Cons.IH [of w] show ?thesis by auto
    next
      case False
      from download_if_possible_events [of self ?r w] obtain evs1
        where evs1: "trace (snd (download_if_possible self ?r w)) = trace w @ evs1"
          "\<forall>e\<in>set evs1. event_of_report self ?r e"
        by auto
      obtain res w' where call: "download_if_possible self ?r w = (res, w')"
        by (cases "download_if_possible self ?r w")
      with evs1 have w': "trace w' = trace w @ evs1" by simp
      from evs1(2) Inr False have here: "\<forall>e\<in>set evs1. ?P (m # ms) e" by auto
      show ?thesis
      proof (cases res)
        case (Inl x)
        with Inr False call have "download_months self y (m # ms) w = (Inl x, w')" by simp
        with w' here show ?thesis by auto
      next
        case (Inr b)
        with \<open>has_no_data ?r = Inr no_data\<close> False call
        have step: "download_months self y (m # ms) w = download_months self y ms w'" by simp
        from Cons.IH [of w'] obtain evs2
          where evs2: "trace (snd (download_months self y ms w')) = trace w' @ evs2"
            "\<forall>e\<in>set evs2. ?P ms e"
          by auto
        from evs2(2) have "\<forall>e\<in>set evs2. ?P (m # ms) e" by auto
        with here have "\<forall>e\<in>set (evs1 @ evs2). ?P (m # ms) e" by auto
        moreover from step evs2(1) w'
        have "trace (snd (download_months self y (m # ms) w)) = trace w @ evs1 @ evs2" by simp
        ultimately show ?thesis by blast
      qed
    qed
  qed
qed

lemma download_years_events:
  "\<exists>evs. trace (snd (download_years self ys w)) = trace w @ evs \<and>
     (\<forall>e\<in>set evs. \<exists>y\<in>set ys. \<exists>m\<in>set all_months.
        has_no_data \<lparr>year = y, month = m\<rparr> = Inr False \<and>
        event_of_report self \<lparr>year = y, month = m\<rparr> e)"
proof (induction ys arbitrary: w)
  case Nil
  show ?case by simp
next
  case (Cons y ys)
  let ?P = "\<lambda>ys e. \<exists>y\<in>set ys. \<exists>m\<in>set all_months.
        has_no_data \<lparr>year = y, month = m\<rparr> = Inr False \<and>
        event_of_report self \<lparr>year = y, month = m\<rparr> e"
  from download_months_events [of self y all_months w] obtain evs1
    where evs1: "trace (snd (download_months self y all_months w)) = trace w @ evs1"
      "\<forall>e\<in>set evs1. ?P (y # ys) e"
    by auto
  obtain res w' where call: "download_months self y all_months w = (res, w')"
    by (cases "download_months self y all_months w")
  with evs1 have w': "trace w' = trace w @ evs1" by simp
  show ?case
  proof (cases res)
    case (Inl x)
    with call have "download_years self (y # ys) w = (Inl x, w')" by simp
    with w' evs1(2) show ?thesis by auto
  next
    case (Inr b)
    with call have step: "download_years self (y # ys) w = download_years self ys w'" by simp
    from Cons.IH [of w'] obtain evs2
      where evs2: "trace (snd (download_years self ys w')) = trace w' @ evs2"
        "\<forall>e\<in>set evs2. ?P ys e"
      by auto
    from evs2(2) have "\<forall>e\<in>set evs2. ?P (y # ys) e" by auto
    with evs1(2) have "\<forall>e\<in>set (evs1 @ evs2). ?P (y # ys) e" by auto
    moreover from step evs2(1) w'
    have "trace (snd (download_years self (y # ys) w)) = trace w @ evs1 @ evs2" by simp
    ultimately show ?thesis by blast
  qed
qed

text \<open>
  C10: \<open>download_new\<close> calls \<open>download_if_possible\<close> only for reports whose
  \<open>has_no_data\<close> is false, and never for November 2015. Every call of
  \<open>download_if_possible\<close> begins by testing for the report's local file, so the
  calls show in the trace: every input or output the run adds to the trace belongs
  to a report of a year from 2012 to the current year and of one of the twelve
  months whose \<open>has_no_data\<close> is false, and the local file of November 2015 is
  neither tested for nor written.
\<close>

theorem download_new_skips_no_data:
  "\<exists>evs. trace (snd (download_new self w)) = trace w @ evs \<and>
     (\<forall>e\<in>set evs. \<exists>y\<in>{2012..now_year w}. \<exists>m\<in>set all_months.
        has_no_data \<lparr>year = y, month = m\<rparr> = Inr False \<and>
        event_of_report self \<lparr>year = y, month = m\<rparr> e) \<and>
     Probe (locate_excel_file nov_2015 (data_dir self)) \<notin> set evs \<and>
     Write (locate_excel_file nov_2015 (data_dir self)) \<notin> set evs"
proof -
  let ?f = "locate_excel_file nov_2015 (data_dir self)"
  from download_years_events [of self "[2012..now_year w]" w] obtain evs
    where evs: "trace (snd (download_new self w)) = trace w @ evs"
      "\<forall>e\<in>set evs. \<exists>y\<in>{2012..now_year w}. \<exists>m\<in>set all_months.
        has_no_data \<lparr>year = y, month = m\<rparr> = Inr False \<and>
        event_of_report self \<lparr>year = y, month = m\<rparr> e"
    by (auto simp: download_new_def current_year_def)
  have no: "\<not> event_of_report self \<lparr>year = y, month = m\<rparr> e"
    if e: "e = Probe ?f \<or> e = Write ?f" and y: "2012 \<le> y" and m: "m \<in> set all_months"
      and data: "has_no_data \<lparr>year = y, month = m\<rparr> = Inr False" for e y m
  proof
    assume "event_of_report self \<lparr>year = y, month = m\<rparr> e"
    with e have "locate_excel_file \<lparr>year = y, month = m\<rparr> (data_dir self) = ?f"
      by (auto simp: event_of_report_def)
    from locate_excel_file_inj [OF _ _ _ _ this] y all_months_index [OF m]
    have "y = 2015" "month_index m = 10" by (simp_all add: nov_2015_def)
    then have "\<lparr>year = y, month = m\<rparr> = nov_2015" by (simp add: nov_2015_def)
    with data show False
      by (simp add: nov_2015_def has_no_data_def short_name_def py_getitem_def)
  qed
  from evs(2) no have "Probe ?f \<notin> set evs" "Write ?f \<notin> set evs"
    by fastforce+
  with evs show ?thesis by blast
qed

lemma mirrored_2015_run:
  "trace (snd (download_new data_download mirrored_2015)) =
     map (\<lambda>n. Probe (''data/2012-'' @ n @ ''.xlsx'')) month_numbers @
     map (\<lambda>n. Probe (''data/2013-'' @ n @ ''.xlsx'')) month_numbers @
     map (\<lambda>n. Probe (''data/2014-'' @ n @ ''.xlsx'')) month_numbers @
     map (\<lambda>n. Probe (''data/2015-'' @ n @ ''.xlsx'')) (take 10 month_numbers @ drop 11 month_numbers)"
  by (simp add: download_new_def current_year_def mirrored_2015_def all_months_list
      has_no_data_def short_name_def py_getitem_def download_if_possible_def Let_def
      locate_excel_file_def data_download_def numerical_def str_int_def str_nat.simps digit_char_def
      month_numbers_def)

text \<open>
  C10 in the year 2015 with every file on disk: the run tests for the files of
  October and December 2015 and not for that of November 2015.
\<close>

theorem download_new_skips_no_data_witness:
  "Probe ''data/2015-10.xlsx'' \<in> set (trace (snd (download_new data_download mirrored_2015))) \<and>
   Probe ''data/2015-11.xlsx'' \<notin> set (trace (snd (download_new data_download mirrored_2015))) \<and>
   Probe ''data/2015-12.xlsx'' \<in> set (trace (snd (download_new data_download mirrored_2015)))"
proof -
  from download_new_skips_no_data [of data_download mirrored_2015]
  have "Probe ''data/2015-11.xlsx'' \<notin> set (trace (snd (download_new data_download mirrored_2015)))"
    by (auto simp: nov_2015_file mirrored_2015_def)
  moreover have "Probe ''data/2015-10.xlsx'' \<in> set (trace (snd (download_new data_download mirrored_2015)))"
    "Probe ''data/2015-12.xlsx'' \<in> set (trace (snd (download_new data_download mirrored_2015)))"
    by (simp_all add: mirrored_2015_run month_numbers_def)
  ultimately show ?thesis by simp
qed

end
